theory Spec2Isabelle
  imports Complex_Main
begin

section \<open>Python string helpers used by the prompt builders\<close>

text \<open>
  Python \<open>str\<close> values are modelled as \<open>string\<close> (a list of characters with
  code points below 256). \<open>isspace\<close> lists the code points below 256 that Python's
  \<open>str.isspace\<close> accepts; \<open>str.strip()\<close> removes exactly those from both ends.
\<close>

definition NL :: string where
  "NL = [CHR 0x0A]"

definition isspace :: "char \<Rightarrow> bool" where
  "isspace c = ((of_char c :: nat) \<in> {9, 10, 11, 12, 13, 28, 29, 30, 31, 32, 133, 160})"

definition lstrip :: "string \<Rightarrow> string" where
  "lstrip s = dropWhile isspace s"

definition rstrip :: "string \<Rightarrow> string" where
  "rstrip s = rev (dropWhile isspace (rev s))"

definition strip :: "string \<Rightarrow> string" where
  "strip s = lstrip (rstrip s)"

text \<open>\<open>sep.join(xs)\<close>.\<close>

fun join :: "string \<Rightarrow> string list \<Rightarrow> string" where
  "join sep [] = []"
| "join sep [x] = x"
| "join sep (x # y # ys) = x @ sep @ join sep (y # ys)"

text \<open>
  \<open>str.upper()\<close> on ASCII letters. The source applies it to the role only, which the
  schema restricts to three lower-case ASCII literals.
\<close>

definition upper_char :: "char \<Rightarrow> char" where
  "upper_char c = (let n = (of_char c :: nat) in if 97 \<le> n \<and> n \<le> 122 then char_of (n - 32) else c)"

definition upper :: "string \<Rightarrow> string" where
  "upper s = map upper_char s"

text \<open>\<open>str.split()\<close> without arguments: the maximal runs of non-whitespace characters.\<close>

fun split_from :: "string \<Rightarrow> string \<Rightarrow> string list" where
  "split_from cur [] = (if cur = [] then [] else [cur])"
| "split_from cur (c # cs) =
     (if isspace c then (if cur = [] then split_from [] cs else cur # split_from [] cs)
      else split_from (cur @ [c]) cs)"

definition split :: "string \<Rightarrow> string list" where
  "split s = split_from [] s"

section \<open>Schemas\<close>

text \<open>\<open>Message.role\<close> is \<open>Literal["system", "user", "assistant"]\<close>.\<close>

datatype Role = System | User | Assistant

fun role_str :: "Role \<Rightarrow> string" where
  "role_str System = ''system''"
| "role_str User = ''user''"
| "role_str Assistant = ''assistant''"

record Message =
  role :: Role
  content :: string

text \<open>
  \<open>ChatRequest\<close> as the handlers receive it. Floats are modelled as rationals:
  the comparisons and quotients of the source are exact here.
\<close>

record ChatRequest =
  model :: string
  messages :: "Message list"
  temperature :: rat
  max_tokens :: "int option"

section \<open>Prompt builders\<close>

text \<open>
  \<open>app_ollama.chat\<close> and \<open>chat_stream\<close> (inline) and \<open>app_onnx.build_prompt\<close>:
  the same three lines.
\<close>

definition history_line :: "Message \<Rightarrow> string" where
  "history_line m = upper (role_str (role m)) @ '': '' @ content m"

definition build_prompt :: "Message list \<Rightarrow> string" where
  "build_prompt msgs =
     (let sys = join NL (map content (filter (\<lambda>m. role m = System) msgs));
          history = join NL (map history_line (filter (\<lambda>m. role m \<noteq> System) msgs))
      in strip (sys @ NL @ history))"



section \<open>Request validation\<close>

datatype error =
  RequestValidationError
  | ConnectError
  | HTTPStatusError
  | ReadError

text \<open>
  \<open>app_ollama.ChatRequest\<close> and \<open>app_onnx_genai.ChatRequest\<close> declare
  \<open>messages: min_length=1\<close>, \<open>temperature: ge=0.0, le=2.0\<close> and
  \<open>max_tokens: ge=1\<close>; the framework answers a body that breaks one of them before
  the handler runs.
\<close>

definition ChatRequest_validate :: "ChatRequest \<Rightarrow> error + ChatRequest" where
  "ChatRequest_validate body =
     (if length (messages body) < 1 then Inl RequestValidationError
      else if temperature body < 0 \<or> 2 < temperature body then Inl RequestValidationError
      else (case max_tokens body of
              None \<Rightarrow> Inr body
            | Some n \<Rightarrow> if n < 1 then Inl RequestValidationError else Inr body))"

text \<open>
  \<open>app_onnx.ChatRequest\<close> declares the same fields with no constraint:
  \<open>messages: List[Message]\<close>, \<open>temperature: float = 0.2\<close>,
  \<open>max_tokens: Optional[int] = None\<close>.
\<close>

definition ChatRequest_validate_onnx :: "ChatRequest \<Rightarrow> error + ChatRequest" where
  "ChatRequest_validate_onnx body = Inr body"

section \<open>Rounding and metrics\<close>

text \<open>\<open>round(x, n)\<close>: to the nearest multiple of \<open>10^-n\<close>, ties to even.\<close>

definition round_half_even :: "rat \<Rightarrow> int" where
  "round_half_even x =
     (let f = \<lfloor>x\<rfloor>; d = x - of_int f
      in if d < 1 / 2 then f else if 1 / 2 < d then f + 1 else if even f then f else f + 1)"

definition py_round :: "rat \<Rightarrow> nat \<Rightarrow> rat" where
  "py_round x n = of_int (round_half_even (x * 10 ^ n)) / 10 ^ n"

text \<open>\<open>round(x, n) if x else None\<close>: \<open>None\<close> and \<open>0.0\<close> are both falsy.\<close>

definition round_if :: "rat option \<Rightarrow> nat \<Rightarrow> rat option" where
  "round_if v n = (case v of None \<Rightarrow> None | Some x \<Rightarrow> if x \<noteq> 0 then Some (py_round x n) else None)"

text \<open>\<open>c if c > 0 else None\<close>.\<close>

definition positive_or_none :: "int \<Rightarrow> int option" where
  "positive_or_none c = (if 0 < c then Some c else None)"

record PerformanceMetrics =
  ttft :: "rat option"
  total_latency :: rat
  tokens_per_second :: "rat option"
  output_tokens_per_second :: "rat option"
  input_tokens :: "int option"
  output_tokens :: "int option"
  tpot :: "rat option"
  metrics_model :: string

record ChatResponse =
  response_content :: string
  response_metrics :: PerformanceMetrics

text \<open>
  The three throughput variables of a handler before presentation:
  \<open>(tokens_per_second, output_tokens_per_second, tpot)\<close>.
\<close>

type_synonym rates = "rat option \<times> rat option \<times> rat option"

section \<open>The Ollama backend\<close>

text \<open>The JSON body posted to \<open>/api/generate\<close>.\<close>

record GeneratePayload =
  payload_model :: string
  payload_prompt :: string
  options_temperature :: rat
  options_num_predict :: "int option"
  payload_stream :: bool

text \<open>
  A JSON object of the backend, read with \<open>get\<close>: a key is absent (\<open>None\<close>) or
  holds a value of its protocol type; \<open>obj_done\<close> is the truth value of
  \<open>obj.get("done")\<close>.
\<close>

record OllamaObj =
  obj_done :: bool
  response :: "string option"
  prompt_eval_count :: "int option"
  eval_count :: "int option"
  total_duration :: "int option"
  prompt_eval_duration :: "int option"

text \<open>\<open>d.get(key, default)\<close>.\<close>

definition get_or :: "'a option \<Rightarrow> 'a \<Rightarrow> 'a" where
  "get_or v d = (case v of None \<Rightarrow> d | Some x \<Rightarrow> x)"

text \<open>
  The outcome of the non-streaming \<open>client.post\<close> followed by
  \<open>raise_for_status\<close> and \<open>r.json()\<close>.
\<close>

datatype backend_reply = ConnectionRefused | ErrorStatus | Reply OllamaObj

subsection \<open>\<open>app_ollama.chat\<close>\<close>

definition chat_payload :: "ChatRequest \<Rightarrow> GeneratePayload" where
  "chat_payload req =
     \<lparr>payload_model = model req,
      payload_prompt = build_prompt (messages req),
      options_temperature = temperature req,
      options_num_predict = None,
      payload_stream = False\<rparr>"

definition chat_rates :: "rat \<Rightarrow> OllamaObj \<Rightarrow> rates" where
  "chat_rates latency data =
     (let pec = get_or (prompt_eval_count data) 0;
          ec = get_or (eval_count data) 0
      in if 0 < latency then
           (let total_tokens = pec + ec;
                tps = (if 0 < total_tokens then Some (of_int total_tokens / latency) else None)
            in if 0 < ec then
                 (let total_duration_s = of_int (get_or (total_duration data) 0) / 1000000000;
                      prompt_duration_s = of_int (get_or (prompt_eval_duration data) 0) / 1000000000;
                      generation_time = (if prompt_duration_s < total_duration_s
                                         then total_duration_s - prompt_duration_s else latency)
                  in if 0 < generation_time
                     then (tps, Some (of_int ec / generation_time), Some (generation_time / of_int ec))
                     else (tps, None, None))
               else (tps, None, None))
         else (None, None, None))"

definition chat_metrics :: "string \<Rightarrow> rat \<Rightarrow> OllamaObj \<Rightarrow> PerformanceMetrics" where
  "chat_metrics mdl latency data =
     (case chat_rates latency data of (tps, otps, tp) \<Rightarrow>
        \<lparr>ttft = None,
         total_latency = py_round latency 4,
         tokens_per_second = round_if tps 2,
         output_tokens_per_second = round_if otps 2,
         input_tokens = positive_or_none (get_or (prompt_eval_count data) 0),
         output_tokens = positive_or_none (get_or (eval_count data) 0),
         tpot = round_if tp 4,
         metrics_model = mdl\<rparr>)"

text \<open>
  \<open>chat\<close> returns the payloads it posted together with its result; the two clock
  readings are arguments.
\<close>

definition chat ::
  "(GeneratePayload \<Rightarrow> backend_reply) \<Rightarrow> rat \<Rightarrow> rat \<Rightarrow> ChatRequest
     \<Rightarrow> GeneratePayload list \<times> (error + ChatResponse)" where
  "chat backend start_time end_time req =
     (let payload = chat_payload req
      in (case backend payload of
            ConnectionRefused \<Rightarrow> ([payload], Inl ConnectError)
          | ErrorStatus \<Rightarrow> ([payload], Inl HTTPStatusError)
          | Reply data \<Rightarrow>
              ([payload],
               Inr \<lparr>response_content = get_or (response data) [],
                    response_metrics = chat_metrics (model req) (end_time - start_time) data\<rparr>)))"

text \<open>The route: validation first, then the handler.\<close>

definition post_v1_chat ::
  "(GeneratePayload \<Rightarrow> backend_reply) \<Rightarrow> rat \<Rightarrow> rat \<Rightarrow> ChatRequest
     \<Rightarrow> GeneratePayload list \<times> (error + ChatResponse)" where
  "post_v1_chat backend start_time end_time body =
     (case ChatRequest_validate body of
        Inl e \<Rightarrow> ([], Inl e)
      | Inr req \<Rightarrow> chat backend start_time end_time req)"

subsection \<open>\<open>app_ollama.chat_stream\<close> and its \<open>event_gen\<close>\<close>

text \<open>
  The frames written to the caller, in the event alphabet of the specification:
  \<open>{"token": t}\<close> is \<open>Token t\<close>, and
  \<open>{"done": true, "token": "[DONE]", "metrics": m}\<close> is \<open>Done ''[DONE]'' m\<close>, the
  text it carries being its \<open>token\<close> field. \<open>Failed\<close> is the third event of the
  specification; no handler of the source builds it.
\<close>

datatype StreamOutcome =
  Token string
  | Done string PerformanceMetrics
  | Failed error string

text \<open>
  A line of \<open>r.aiter_lines()\<close>: empty, not JSON, or a JSON object. Each line comes with
  the clock reading \<open>time.time()\<close> gives while it is handled. The line iterator ends
  when the body ends, or raises when the connection drops.
\<close>

datatype line = EmptyLine | NotJson | Json OllamaObj

datatype stream_end = EndOfStream | ConnectionDropped

datatype stream_reply =
  StreamRefused
  | StreamErrorStatus
  | Lines "(rat \<times> line) list" stream_end

text \<open>How the generator stops: it returns, or an exception leaves it.\<close>

datatype gen_result = Returned | Raised error

text \<open>The local variables of \<open>event_gen\<close>.\<close>

record gen_state =
  st_ttft :: "rat option"
  st_first_token_received :: bool
  st_token_count :: int
  st_prompt_eval_count :: int

definition chat_stream_payload :: "ChatRequest \<Rightarrow> GeneratePayload" where
  "chat_stream_payload req =
     \<lparr>payload_model = model req,
      payload_prompt = build_prompt (messages req),
      options_temperature = temperature req,
      options_num_predict =
        (case max_tokens req of None \<Rightarrow> None | Some n \<Rightarrow> if n \<noteq> 0 then Some n else None),
      payload_stream = True\<rparr>"

text \<open>
  The throughput variables of the streaming handlers, from the latency, the
  time to first token and the two token counts
  (\<open>generation_time = total_latency - (ttft if ttft else 0)\<close>).
\<close>

definition stream_rates :: "rat \<Rightarrow> rat option \<Rightarrow> int \<Rightarrow> int \<Rightarrow> rates" where
  "stream_rates latency tt pec ec =
     (if 0 < latency then
        (let total_tokens = pec + ec;
             tps = (if 0 < total_tokens then Some (of_int total_tokens / latency) else None)
         in if 0 < ec then
              (let generation_time =
                     latency - (case tt of None \<Rightarrow> 0 | Some t \<Rightarrow> if t \<noteq> 0 then t else 0)
               in if 0 < generation_time
                  then (tps, Some (of_int ec / generation_time), Some (generation_time / of_int ec))
                  else (tps, None, None))
            else (tps, None, None))
      else (None, None, None))"

text \<open>The \<open>done\<close> branch: the final counts and the metrics object.\<close>

definition final_prompt_eval_count :: "gen_state \<Rightarrow> OllamaObj \<Rightarrow> int" where
  "final_prompt_eval_count st obj = get_or (prompt_eval_count obj) (st_prompt_eval_count st)"

definition final_eval_count :: "gen_state \<Rightarrow> OllamaObj \<Rightarrow> int" where
  "final_eval_count st obj = get_or (eval_count obj) (st_token_count st)"

definition done_metrics ::
  "string \<Rightarrow> rat \<Rightarrow> rat \<Rightarrow> gen_state \<Rightarrow> OllamaObj \<Rightarrow> PerformanceMetrics" where
  "done_metrics mdl start_time end_time st obj =
     (let latency = end_time - start_time;
          pec = final_prompt_eval_count st obj;
          ec = final_eval_count st obj
      in (case stream_rates latency (st_ttft st) pec ec of (tps, otps, tp) \<Rightarrow>
            \<lparr>ttft = round_if (st_ttft st) 4,
             total_latency = py_round latency 4,
             tokens_per_second = round_if tps 2,
             output_tokens_per_second = round_if otps 2,
             input_tokens = positive_or_none pec,
             output_tokens = positive_or_none ec,
             tpot = round_if tp 4,
             metrics_model = mdl\<rparr>))"

text \<open>The token branch: the state after a non-empty fragment read at \<open>now\<close>.\<close>

definition on_token :: "rat \<Rightarrow> rat \<Rightarrow> gen_state \<Rightarrow> gen_state" where
  "on_token start_time now st =
     st\<lparr>st_ttft := (if \<not> st_first_token_received st then Some (now - start_time) else st_ttft st),
        st_first_token_received := True,
        st_token_count := st_token_count st + 1\<rparr>"

text \<open>
  The \<open>async for\<close> loop. It gives the frames written, how the generator stopped,
  and the local variables at that point.
\<close>

fun event_gen_lines ::
  "string \<Rightarrow> rat \<Rightarrow> gen_state \<Rightarrow> (rat \<times> line) list \<Rightarrow> stream_end
     \<Rightarrow> StreamOutcome list \<times> gen_result \<times> gen_state" where
  "event_gen_lines mdl start_time st [] EndOfStream = ([], Returned, st)"
| "event_gen_lines mdl start_time st [] ConnectionDropped = ([], Raised ReadError, st)"
| "event_gen_lines mdl start_time st ((now, EmptyLine) # ls) e =
     event_gen_lines mdl start_time st ls e"
| "event_gen_lines mdl start_time st ((now, NotJson) # ls) e =
     event_gen_lines mdl start_time st ls e"
| "event_gen_lines mdl start_time st ((now, Json obj) # ls) e =
     (if obj_done obj then
        ([Done ''[DONE]'' (done_metrics mdl start_time now st obj)], Returned,
         st\<lparr>st_prompt_eval_count := final_prompt_eval_count st obj\<rparr>)
      else
        (let token = get_or (response obj) []
         in if token \<noteq> [] then
              (case event_gen_lines mdl start_time (on_token start_time now st) ls e of
                 (evs, r, st') \<Rightarrow> (Token token # evs, r, st'))
            else event_gen_lines mdl start_time st ls e))"

definition initial_state :: gen_state where
  "initial_state =
     \<lparr>st_ttft = None, st_first_token_received = False, st_token_count = 0,
      st_prompt_eval_count = 0\<rparr>"

definition event_gen ::
  "string \<Rightarrow> rat \<Rightarrow> stream_reply \<Rightarrow> StreamOutcome list \<times> gen_result \<times> gen_state" where
  "event_gen mdl start_time reply =
     (case reply of
        StreamRefused \<Rightarrow> ([], Raised ConnectError, initial_state)
      | StreamErrorStatus \<Rightarrow> ([], Raised HTTPStatusError, initial_state)
      | Lines ls e \<Rightarrow> event_gen_lines mdl start_time initial_state ls e)"

text \<open>
  \<open>chat_stream\<close>: the payloads posted, the frames written and how the generator
  stopped.
\<close>

definition chat_stream ::
  "(GeneratePayload \<Rightarrow> stream_reply) \<Rightarrow> rat \<Rightarrow> ChatRequest
     \<Rightarrow> GeneratePayload list \<times> StreamOutcome list \<times> gen_result" where
  "chat_stream backend start_time req =
     (let payload = chat_stream_payload req
      in (case event_gen (model req) start_time (backend payload) of
            (evs, r, st) \<Rightarrow> ([payload], evs, r)))"

definition post_v1_chat_stream ::
  "(GeneratePayload \<Rightarrow> stream_reply) \<Rightarrow> rat \<Rightarrow> ChatRequest
     \<Rightarrow> GeneratePayload list \<times> (error + StreamOutcome list \<times> gen_result)" where
  "post_v1_chat_stream backend start_time body =
     (case ChatRequest_validate body of
        Inl e \<Rightarrow> ([], Inl e)
      | Inr req \<Rightarrow>
          (case chat_stream backend start_time req of (calls, evs, r) \<Rightarrow> (calls, Inr (evs, r))))"

section \<open>The ONNX GenAI backend: \<open>app_onnx_genai.chat_stream\<close>\<close>

text \<open>
  The \<open>while not generator.is_done()\<close> loop over the decoded tokens the generator
  gives, each with the clock reading taken while it is handled. Every token is
  framed, the empty one too.
\<close>

fun genai_loop ::
  "rat \<Rightarrow> rat option \<Rightarrow> bool \<Rightarrow> int \<Rightarrow> (rat \<times> string) list
     \<Rightarrow> StreamOutcome list \<times> rat option \<times> int" where
  "genai_loop start_time tt first_token cnt [] = ([], tt, cnt)"
| "genai_loop start_time tt first_token cnt ((now, token_text) # rest) =
     (case genai_loop start_time (if first_token then Some (now - start_time) else tt)
             False (cnt + 1) rest of
        (evs, tt', cnt') \<Rightarrow> (Token token_text # evs, tt', cnt'))"

definition event_gen_genai ::
  "string \<Rightarrow> rat \<Rightarrow> int \<Rightarrow> (rat \<times> string) list \<Rightarrow> rat \<Rightarrow> StreamOutcome list" where
  "event_gen_genai mdl start_time input_token_count generated end_time =
     (case genai_loop start_time None True 0 generated of
        (evs, tt, output_token_count) \<Rightarrow>
          (let latency = end_time - start_time
           in (case stream_rates latency tt input_token_count output_token_count of
                 (tps, otps, tp) \<Rightarrow>
                   evs @ [Done ''[DONE]''
                     \<lparr>ttft = round_if tt 4,
                      total_latency = py_round latency 4,
                      tokens_per_second = round_if tps 2,
                      output_tokens_per_second = round_if otps 2,
                      input_tokens = Some input_token_count,
                      output_tokens = Some output_token_count,
                      tpot = round_if tp 4,
                      metrics_model = mdl\<rparr>])))"

section \<open>The ONNX backend: \<open>app_onnx\<close>\<close>

text \<open>The arguments of the one \<open>model.generate\<close> call of \<open>chat\<close> and \<open>chat_stream\<close>.\<close>

record GenerateCall =
  call_prompt :: string
  do_sample :: bool
  call_temperature :: rat
  max_new_tokens :: int

definition onnx_generate_call :: "int \<Rightarrow> ChatRequest \<Rightarrow> GenerateCall" where
  "onnx_generate_call DEFAULT_MAX_NEW_TOKENS req =
     \<lparr>call_prompt = build_prompt (messages req),
      do_sample = (temperature req \<noteq> 0 \<and> 0 < temperature req),
      call_temperature = max (temperature req) (1 / 1000000),
      max_new_tokens =
        (case max_tokens req of
           None \<Rightarrow> DEFAULT_MAX_NEW_TOKENS
         | Some n \<Rightarrow> if n \<noteq> 0 then n else DEFAULT_MAX_NEW_TOKENS)\<rparr>"

text \<open>
  The \<open>model.generate\<close> calls of either route of \<open>app_onnx\<close> for a request body,
  with the model loaded.
\<close>

definition post_v1_chat_onnx_calls :: "int \<Rightarrow> ChatRequest \<Rightarrow> GenerateCall list" where
  "post_v1_chat_onnx_calls DEFAULT_MAX_NEW_TOKENS body =
     (case ChatRequest_validate_onnx body of
        Inl e \<Rightarrow> []
      | Inr req \<Rightarrow> [onnx_generate_call DEFAULT_MAX_NEW_TOKENS req])"

text \<open>
  \<open>event_gen\<close> of \<open>app_onnx.chat_stream\<close>: the decoded completion is split into
  words, each framed with a space after it. \<open>first_now\<close> is the clock reading at
  the first word, \<open>n_input\<close> and \<open>n_output\<close> the lengths of the input and
  output token sequences.
\<close>

definition event_gen_onnx ::
  "string \<Rightarrow> rat \<Rightarrow> string \<Rightarrow> rat \<Rightarrow> rat \<Rightarrow> int \<Rightarrow> int \<Rightarrow> StreamOutcome list" where
  "event_gen_onnx mdl start_time completion first_now end_time n_input n_output =
     (let words = split completion;
          first_chunk_time = (if words = [] then None else Some first_now);
          latency = end_time - start_time;
          tt = (case first_chunk_time of
                  None \<Rightarrow> None
                | Some t \<Rightarrow> if t \<noteq> 0 then Some (t - start_time) else None);
          out_tokens = max (n_output - n_input) 0
      in (case stream_rates latency tt n_input out_tokens of
            (tps, otps, tp) \<Rightarrow>
              map (\<lambda>w. Token (w @ '' '')) words @
              [Done ''[DONE]''
                 \<lparr>ttft = round_if tt 4,
                  total_latency = py_round latency 4,
                  tokens_per_second = round_if tps 2,
                  output_tokens_per_second = round_if otps 2,
                  input_tokens = Some n_input,
                  output_tokens = Some out_tokens,
                  tpot = round_if tp 4,
                  metrics_model = (if mdl \<noteq> [] then mdl else ''onnx-local'')\<rparr>]))"

section \<open>Vocabulary for the properties\<close>




text \<open>The text fragments of the \<open>Token\<close> events of a sequence, in order.\<close>

fun token_texts :: "StreamOutcome list \<Rightarrow> string list" where
  "token_texts [] = []"
| "token_texts (Token t # evs) = t # token_texts evs"
| "token_texts (Done t m # evs) = token_texts evs"
| "token_texts (Failed k msg # evs) = token_texts evs"

text \<open>The text a terminal \<open>Done\<close> event carries.\<close>

fun carried_text :: "StreamOutcome \<Rightarrow> string option" where
  "carried_text (Done t m) = Some t"
| "carried_text (Token t) = None"
| "carried_text (Failed k msg) = None"



text \<open>Backend lines: the done marker, and the content fragment of a line.\<close>

fun is_done_line :: "rat \<times> line \<Rightarrow> bool" where
  "is_done_line (now, Json obj) = obj_done obj"
| "is_done_line (now, EmptyLine) = False"
| "is_done_line (now, NotJson) = False"

fun fragment :: "rat \<times> line \<Rightarrow> string" where
  "fragment (now, Json obj) = get_or (response obj) []"
| "fragment (now, EmptyLine) = []"
| "fragment (now, NotJson) = []"

definition has_done :: "(rat \<times> line) list \<Rightarrow> bool" where
  "has_done ls = list_ex is_done_line ls"

text \<open>The non-empty content fragments of a run of lines, in order.\<close>

definition fragments :: "(rat \<times> line) list \<Rightarrow> string list" where
  "fragments ls = filter (\<lambda>t. t \<noteq> []) (map fragment ls)"


text \<open>
  The output token count as the specification words it: the backend's final count when
  it is present and agrees with the local counter, the local counter when it is absent
  or disagrees.
\<close>

definition output_count_spec :: "int option \<Rightarrow> int \<Rightarrow> int" where
  "output_count_spec reported counted =
     (case reported of None \<Rightarrow> counted | Some c \<Rightarrow> if c = counted then c else counted)"

text \<open>The metrics a terminal \<open>Done\<close> event carries.\<close>

fun event_metrics :: "StreamOutcome \<Rightarrow> PerformanceMetrics option" where
  "event_metrics (Done t m) = Some m"
| "event_metrics (Token t) = None"
| "event_metrics (Failed k msg) = None"


section \<open>Sample inputs\<close>

text \<open>
  A backend line with the content fragment \<open>t\<close>, and a done marker with the counts
  the backend reports, as Ollama writes them.
\<close>

definition token_line :: "rat \<Rightarrow> string \<Rightarrow> rat \<times> line" where
  "token_line now t =
     (now, Json \<lparr>obj_done = False, response = Some t, prompt_eval_count = None,
                 eval_count = None, total_duration = None, prompt_eval_duration = None\<rparr>)"

definition done_line :: "rat \<Rightarrow> int option \<Rightarrow> int option \<Rightarrow> rat \<times> line" where
  "done_line now pec ec =
     (now, Json \<lparr>obj_done = True, response = Some [], prompt_eval_count = pec,
                 eval_count = ec, total_duration = None, prompt_eval_duration = None\<rparr>)"

text \<open>The request of scenario A: one user message \<open>Hi\<close>, temperature 0.2.\<close>

definition sample_request :: ChatRequest where
  "sample_request =
     \<lparr>model = ''m'', messages = [\<lparr>role = User, content = ''Hi''\<rparr>], temperature = 1 / 5,
      max_tokens = None\<rparr>"

text \<open>The backend reply of scenario D.\<close>

definition paris_reply :: OllamaObj where
  "paris_reply =
     \<lparr>obj_done = True, response = Some ''Paris'', prompt_eval_count = Some 10,
      eval_count = Some 4, total_duration = Some 2000000000,
      prompt_eval_duration = Some 500000000\<rparr>"

section \<open>Lemmas on the string helpers\<close>












section \<open>The prompt builders\<close>




section \<open>The streaming loop of \<open>app_ollama\<close>\<close>

lemma fragments_Nil: "fragments [] = []"
  by (simp add: fragments_def)

lemma fragments_skip: "fragment l = [] \<Longrightarrow> fragments (l # ls) = fragments ls"
  by (simp add: fragments_def)

lemma fragments_keep: "fragment l \<noteq> [] \<Longrightarrow> fragments (l # ls) = fragment l # fragments ls"
  by (simp add: fragments_def)

lemma has_done_Cons: "has_done (l # ls) = (is_done_line l \<or> has_done ls)"
  by (simp add: has_done_def)

lemma on_token_count: "st_token_count (on_token s now st) = st_token_count st + 1"
  by (simp add: on_token_def)

lemma on_token_pec: "st_prompt_eval_count (on_token s now st) = st_prompt_eval_count st"
  by (simp add: on_token_def)


lemma event_gen_lines_done:
  "\<not> has_done pre \<Longrightarrow> obj_done obj \<Longrightarrow>
   \<exists>st'. st_token_count st' = st_token_count st + int (length (fragments pre))
        \<and> st_prompt_eval_count st' = st_prompt_eval_count st
        \<and> event_gen_lines mdl s st (pre @ (now, Json obj) # post) e =
            (map Token (fragments pre) @ [Done ''[DONE]'' (done_metrics mdl s now st' obj)],
             Returned, st'\<lparr>st_prompt_eval_count := final_prompt_eval_count st' obj\<rparr>)"
proof (induction pre arbitrary: st)
  case Nil
  then show ?case by (intro exI [of _ st]) (simp add: fragments_Nil)
next
  case (Cons l ls)
  obtain t ln where l: "l = (t, ln)" by (cases l)
  from Cons.prems have nd: "\<not> has_done ls" and ndl: "\<not> is_done_line l"
    by (simp_all add: has_done_Cons)
  show ?case
  proof (cases ln)
    case EmptyLine
    with Cons.IH [OF nd Cons.prems(2), of st] l show ?thesis by (simp add: fragments_skip)
  next
    case NotJson
    with Cons.IH [OF nd Cons.prems(2), of st] l show ?thesis by (simp add: fragments_skip)
  next
    case (Json o')
    show ?thesis
    proof (cases "get_or (response o') [] = []")
      case True
      with Cons.IH [OF nd Cons.prems(2), of st] l Json ndl show ?thesis
        by (simp add: fragments_skip)
    next
      case False
      from Cons.IH [OF nd Cons.prems(2), of "on_token s t st"] obtain st' where
        st': "st_token_count st' = st_token_count (on_token s t st) + int (length (fragments ls))"
          "st_prompt_eval_count st' = st_prompt_eval_count (on_token s t st)"
          "event_gen_lines mdl s (on_token s t st) (ls @ (now, Json obj) # post) e =
            (map Token (fragments ls) @ [Done ''[DONE]'' (done_metrics mdl s now st' obj)],
             Returned, st'\<lparr>st_prompt_eval_count := final_prompt_eval_count st' obj\<rparr>)"
        by blast
      have "st_token_count st' = st_token_count st + int (length (fragments (l # ls)))"
        using st'(1) False l Json by (simp add: fragments_keep on_token_count)
      moreover have "st_prompt_eval_count st' = st_prompt_eval_count st"
        using st'(2) by (simp add: on_token_pec)
      moreover have "event_gen_lines mdl s st ((l # ls) @ (now, Json obj) # post) e =
            (map Token (fragments (l # ls)) @ [Done ''[DONE]'' (done_metrics mdl s now st' obj)],
             Returned, st'\<lparr>st_prompt_eval_count := final_prompt_eval_count st' obj\<rparr>)"
        using st'(3) False l Json ndl by (simp add: fragments_keep)
      ultimately show ?thesis by blast
    qed
  qed
qed




lemma token_texts_tokens: "token_texts (map Token ts @ evs) = ts @ token_texts evs"
  by (induction ts) simp_all







lemma genai_loop_events: "fst (genai_loop s tt f c g) = map Token (map snd g)"
proof (induction g arbitrary: tt f c)
  case Nil
  show ?case by simp
next
  case (Cons x g)
  obtain now t where x: "x = (now, t)" by (cases x)
  show ?case
    using Cons.IH [of "if f then Some (now - s) else tt" False "c + 1"]
    by (simp add: x case_prod_beta)
qed

lemma event_gen_genai_shape:
  "\<exists>m. event_gen_genai mdl s n g end_time = map Token (map snd g) @ [Done ''[DONE]'' m]"
proof -
  obtain evs tt cnt where gl: "genai_loop s None True 0 g = (evs, tt, cnt)"
    by (cases "genai_loop s None True 0 g")
  with genai_loop_events [of s None True 0 g] have evs: "evs = map Token (map snd g)" by simp
  obtain tps otps tp where "stream_rates (end_time - s) tt n cnt = (tps, otps, tp)"
    by (cases "stream_rates (end_time - s) tt n cnt")
  with gl evs show ?thesis by (simp add: event_gen_genai_def Let_def)
qed

section \<open>Event sequences\<close>







section \<open>Token texts and the terminal event\<close>

lemma concat_fragments: "concat (fragments ls) = concat (map fragment ls)"
  unfolding fragments_def by (induction ls) simp_all

lemma last_tokens_done: "last (map Token ts @ [Done t m]) = Done t m"
  by simp

lemma event_gen_onnx_shape:
  "\<exists>m. event_gen_onnx mdl s c first_now end_time n_in n_out
          = map Token (map (\<lambda>w. w @ '' '') (split c)) @ [Done ''[DONE]'' m]"
  by (simp add: event_gen_onnx_def Let_def case_prod_beta comp_def)

text \<open>
  C4, as amended. For every streaming request that completes normally, the terminal
  \<open>Done\<close> event carries the fixed text \<open>[DONE]\<close> and the metrics, not the accumulated
  text. The concatenation of the \<open>Token\<close> fragments equals, for the Ollama relay, the
  concatenation of the backend's content fragments read before the done marker; for the
  ONNX GenAI relay, the concatenation of the decoded tokens; for the simulated ONNX
  stream, the words of the completion, each followed by one space.
\<close>

theorem token_concatenation:
  "(\<not> has_done pre \<and> obj_done obj \<longrightarrow>
      concat (token_texts (fst (event_gen mdl s (Lines (pre @ (now, Json obj) # post) e))))
        = concat (map fragment pre)
      \<and> carried_text (last (fst (event_gen mdl s (Lines (pre @ (now, Json obj) # post) e))))
        = Some ''[DONE]'')
   \<and> concat (token_texts (event_gen_genai mdl s n g end_time)) = concat (map snd g)
   \<and> carried_text (last (event_gen_genai mdl s n g end_time)) = Some ''[DONE]''
   \<and> concat (token_texts (event_gen_onnx mdl s c first_now end_time n_in n_out))
        = concat (map (\<lambda>w. w @ '' '') (split c))
   \<and> carried_text (last (event_gen_onnx mdl s c first_now end_time n_in n_out)) = Some ''[DONE]''"
proof -
  have a: "\<not> has_done pre \<and> obj_done obj \<longrightarrow>
      concat (token_texts (fst (event_gen mdl s (Lines (pre @ (now, Json obj) # post) e))))
        = concat (map fragment pre)
      \<and> carried_text (last (fst (event_gen mdl s (Lines (pre @ (now, Json obj) # post) e))))
        = Some ''[DONE]''"
  proof
    assume h: "\<not> has_done pre \<and> obj_done obj"
    then have nd: "\<not> has_done pre" and d: "obj_done obj" by simp_all
    from event_gen_lines_done [OF nd d, of initial_state mdl s now post e] obtain st' where
      "event_gen_lines mdl s initial_state (pre @ (now, Json obj) # post) e =
        (map Token (fragments pre) @ [Done ''[DONE]'' (done_metrics mdl s now st' obj)],
         Returned, st'\<lparr>st_prompt_eval_count := final_prompt_eval_count st' obj\<rparr>)"
      by blast
    then have evs: "fst (event_gen mdl s (Lines (pre @ (now, Json obj) # post) e))
        = map Token (fragments pre) @ [Done ''[DONE]'' (done_metrics mdl s now st' obj)]"
      by (simp add: event_gen_def)
    show "concat (token_texts (fst (event_gen mdl s (Lines (pre @ (now, Json obj) # post) e))))
        = concat (map fragment pre)
      \<and> carried_text (last (fst (event_gen mdl s (Lines (pre @ (now, Json obj) # post) e))))
        = Some ''[DONE]''"
      unfolding evs by (simp add: token_texts_tokens concat_fragments)
  qed
  from event_gen_genai_shape [of mdl s n g end_time] obtain m where
    m: "event_gen_genai mdl s n g end_time = map Token (map snd g) @ [Done ''[DONE]'' m]" by blast
  have b: "concat (token_texts (event_gen_genai mdl s n g end_time)) = concat (map snd g)"
    unfolding m by (simp only: token_texts_tokens token_texts.simps append_Nil2)
  have b': "carried_text (last (event_gen_genai mdl s n g end_time)) = Some ''[DONE]''"
    unfolding m by simp
  from event_gen_onnx_shape [of mdl s c first_now end_time n_in n_out] obtain m' where
    m': "event_gen_onnx mdl s c first_now end_time n_in n_out
          = map Token (map (\<lambda>w. w @ '' '') (split c)) @ [Done ''[DONE]'' m']" by blast
  have c: "concat (token_texts (event_gen_onnx mdl s c first_now end_time n_in n_out))
        = concat (map (\<lambda>w. w @ '' '') (split c))"
    unfolding m' by (simp only: token_texts_tokens token_texts.simps append_Nil2)
  have c': "carried_text (last (event_gen_onnx mdl s c first_now end_time n_in n_out)) = Some ''[DONE]''"
    unfolding m' by simp
  from a b b' c c' show ?thesis by simp
qed

theorem token_concatenation_witness:
  "concat (token_texts (fst (event_gen ''m'' 0
      (Lines [token_line 1 ''Hel'', token_line 2 ''lo'', done_line 3 (Some 3) (Some 2)] EndOfStream))))
     = ''Hello''
   \<and> carried_text (last (fst (event_gen ''m'' 0
      (Lines [token_line 1 ''Hel'', token_line 2 ''lo'', done_line 3 (Some 3) (Some 2)] EndOfStream))))
     = Some ''[DONE]''
   \<and> concat (token_texts (event_gen_onnx ''m'' 0 ''Paris  is'' 1 2 3 5)) = ''Paris is ''"
proof -
  have l: "[token_line 1 ''Hel'', token_line 2 ''lo'', done_line 3 (Some 3) (Some 2)]
      = [token_line 1 ''Hel'', token_line 2 ''lo''] @
        (3, Json \<lparr>obj_done = True, response = Some [], prompt_eval_count = Some 3,
                 eval_count = Some 2, total_duration = None, prompt_eval_duration = None\<rparr>) # []"
    by (simp add: done_line_def)
  have nd: "\<not> has_done [token_line 1 ''Hel'', token_line 2 ''lo'']"
    by (simp add: has_done_def token_line_def)
  have sp: "concat (map (\<lambda>w. w @ '' '') (split ''Paris  is'')) = ''Paris is ''"
    by code_simp
  show ?thesis
    using token_concatenation [where pre = "[token_line 1 ''Hel'', token_line 2 ''lo'']"
        and obj = "\<lparr>obj_done = True, response = Some [], prompt_eval_count = Some 3,
                 eval_count = Some 2, total_duration = None, prompt_eval_duration = None\<rparr>"
        and mdl = "''m''" and s = 0 and now = 3 and post = "[]" and e = EndOfStream
        and c = "''Paris  is''" and first_now = 1 and end_time = 2 and n_in = 3 and n_out = 5]
      nd sp
    unfolding l [symmetric]
    by (simp add: token_line_def get_or_def)
qed

text \<open>
  The sentence of the specification fails on scenario A: the fragments concatenate to \<open>Hello\<close>, and
  the text the \<open>Done\<close> event carries is \<open>[DONE]\<close>.
\<close>

theorem done_text_counterexample:
  "concat (token_texts (fst (event_gen ''m'' 0
      (Lines [token_line 1 ''Hel'', token_line 2 ''lo'', done_line 3 (Some 3) (Some 2)] EndOfStream))))
     = ''Hello''
   \<and> carried_text (last (fst (event_gen ''m'' 0
      (Lines [token_line 1 ''Hel'', token_line 2 ''lo'', done_line 3 (Some 3) (Some 2)] EndOfStream))))
     = Some ''[DONE]''
   \<and> carried_text (last (fst (event_gen ''m'' 0
      (Lines [token_line 1 ''Hel'', token_line 2 ''lo'', done_line 3 (Some 3) (Some 2)] EndOfStream))))
     \<noteq> Some (concat (token_texts (fst (event_gen ''m'' 0
      (Lines [token_line 1 ''Hel'', token_line 2 ''lo'', done_line 3 (Some 3) (Some 2)] EndOfStream)))))"
  by (simp add: event_gen_def token_line_def done_line_def get_or_def)

section \<open>The output token count\<close>

lemma done_metrics_output_tokens:
  "output_tokens (done_metrics mdl s now st obj) = positive_or_none (final_eval_count st obj)"
  by (simp add: done_metrics_def Let_def case_prod_beta)

text \<open>
  C6, as amended. For every streaming request reaching the backend's done marker, the
  output token count of the metrics is the count the backend reports on the done line
  whenever it reports one, whether or not it agrees with the local counter, and the
  locally accumulated counter (the number of non-empty fragments read) only when the
  backend reports none; a count that is not positive is presented as absent.
\<close>

theorem output_count_precedence:
  "\<not> has_done pre \<Longrightarrow> obj_done obj \<Longrightarrow>
   map_option output_tokens
     (event_metrics (last (fst (event_gen mdl s (Lines (pre @ (now, Json obj) # post) e)))))
   = Some (positive_or_none
       (case eval_count obj of Some c \<Rightarrow> c | None \<Rightarrow> int (length (fragments pre))))"
proof -
  assume nd: "\<not> has_done pre" and d: "obj_done obj"
  from event_gen_lines_done [OF nd d, of initial_state mdl s now post e] obtain st' where
    cnt: "st_token_count st' = st_token_count initial_state + int (length (fragments pre))" and
    run: "event_gen_lines mdl s initial_state (pre @ (now, Json obj) # post) e =
        (map Token (fragments pre) @ [Done ''[DONE]'' (done_metrics mdl s now st' obj)],
         Returned, st'\<lparr>st_prompt_eval_count := final_prompt_eval_count st' obj\<rparr>)"
    by blast
  have evs: "fst (event_gen mdl s (Lines (pre @ (now, Json obj) # post) e))
      = map Token (fragments pre) @ [Done ''[DONE]'' (done_metrics mdl s now st' obj)]"
    using run by (simp add: event_gen_def)
  have "final_eval_count st' obj
      = (case eval_count obj of Some c \<Rightarrow> c | None \<Rightarrow> int (length (fragments pre)))"
    using cnt by (simp add: final_eval_count_def get_or_def initial_state_def split: option.splits)
  then show ?thesis
    unfolding evs by (simp add: done_metrics_output_tokens)
qed

theorem output_count_precedence_witness:
  "map_option output_tokens (event_metrics (last (fst (event_gen ''m'' 0
      (Lines [token_line 1 ''Hel'', token_line 2 ''lo'', done_line 3 (Some 3) (Some 7)] EndOfStream)))))
     = Some (Some 7)
   \<and> map_option output_tokens (event_metrics (last (fst (event_gen ''m'' 0
      (Lines [token_line 1 ''Hel'', token_line 2 ''lo'', done_line 3 (Some 3) None] EndOfStream)))))
     = Some (Some 2)"
proof -
  have nd: "\<not> has_done [token_line 1 ''Hel'', token_line 2 ''lo'']"
    by (simp add: has_done_def token_line_def)
  have fr: "fragments [token_line 1 ''Hel'', token_line 2 ''lo''] = [''Hel'', ''lo'']"
    by (simp add: fragments_def token_line_def get_or_def)
  show ?thesis
    using output_count_precedence [where pre = "[token_line 1 ''Hel'', token_line 2 ''lo'']"
        and obj = "\<lparr>obj_done = True, response = Some [], prompt_eval_count = Some 3,
                 eval_count = Some 7, total_duration = None, prompt_eval_duration = None\<rparr>"
        and mdl = "''m''" and s = 0 and now = 3 and post = "[]" and e = EndOfStream]
      output_count_precedence [where pre = "[token_line 1 ''Hel'', token_line 2 ''lo'']"
        and obj = "\<lparr>obj_done = True, response = Some [], prompt_eval_count = Some 3,
                 eval_count = None, total_duration = None, prompt_eval_duration = None\<rparr>"
        and mdl = "''m''" and s = 0 and now = 3 and post = "[]" and e = EndOfStream]
      nd fr
    by (simp add: done_line_def positive_or_none_def)
qed

text \<open>
  The sentence of the specification fails when the backend's count disagrees: after one fragment and a
  done line reporting 5, the metrics say 5, where the specification wants the local count 1.
\<close>

theorem disagreeing_count_counterexample:
  "map_option output_tokens (event_metrics (last (fst (event_gen ''m'' 0
      (Lines [token_line 1 ''a'', done_line 2 None (Some 5)] EndOfStream)))))
     = Some (Some 5)
   \<and> length (fragments [token_line 1 ''a'']) = 1
   \<and> positive_or_none (output_count_spec (Some 5) 1) = Some 1
   \<and> map_option output_tokens (event_metrics (last (fst (event_gen ''m'' 0
      (Lines [token_line 1 ''a'', done_line 2 None (Some 5)] EndOfStream)))))
     \<noteq> Some (positive_or_none (output_count_spec (Some 5)
         (int (length (fragments [token_line 1 ''a''])))))"
  by (simp add: event_gen_def token_line_def done_line_def get_or_def initial_state_def
      on_token_def done_metrics_output_tokens final_eval_count_def positive_or_none_def
      output_count_spec_def fragments_def)

section \<open>Empty fragments\<close>

lemma event_gen_lines_skip_empty:
  "\<not> obj_done obj \<Longrightarrow> get_or (response obj) [] = [] \<Longrightarrow>
   event_gen_lines mdl s st (pre @ (now, Json obj) # post) e
     = event_gen_lines mdl s st (pre @ post) e"
proof (induction mdl s st pre e rule: event_gen_lines.induct)
  case (1 mdl start_time st)
  then show ?case by simp
next
  case (2 mdl start_time st)
  then show ?case by simp
next
  case (3 mdl start_time st now ls e)
  then show ?case by simp
next
  case (4 mdl start_time st now ls e)
  then show ?case by simp
next
  case (5 mdl start_time st now obj ls e)
  then show ?case by (simp add: Let_def)
qed

lemma event_gen_lines_tokens_nonempty:
  "[] \<notin> set (token_texts (fst (event_gen_lines mdl s st ls e)))"
  by (induction mdl s st ls e rule: event_gen_lines.induct)
     (simp_all add: Let_def case_prod_beta)

text \<open>
  C10. In the streaming path of \<open>app_ollama\<close>, a line whose content fragment is empty
  is skipped entirely: alone it writes no event and leaves the local variables (the time
  to first token, the token counter) as they were, and anywhere in a stream the run is
  the one without it. Every \<open>Token\<close> event written carries a non-empty fragment.
\<close>

theorem empty_fragment_skipped:
  "(\<not> obj_done obj \<and> get_or (response obj) [] = [] \<longrightarrow>
      event_gen_lines mdl s st [(now, Json obj)] EndOfStream = ([], Returned, st)
      \<and> event_gen_lines mdl s st (pre @ (now, Json obj) # post) e
          = event_gen_lines mdl s st (pre @ post) e)
   \<and> [] \<notin> set (token_texts (fst (event_gen mdl s reply)))"
proof -
  have "[] \<notin> set (token_texts (fst (event_gen mdl s reply)))"
    by (cases reply) (simp_all add: event_gen_def event_gen_lines_tokens_nonempty)
  then show ?thesis
    using event_gen_lines_skip_empty [of obj mdl s st pre now post e]
      event_gen_lines_skip_empty [of obj mdl s st "[]" now "[]" EndOfStream]
    by simp
qed

theorem empty_fragment_skipped_witness:
  "event_gen_lines ''m'' 0 initial_state [token_line 1 []] EndOfStream
     = ([], Returned, initial_state)
   \<and> event_gen_lines ''m'' 0 initial_state
      [token_line 1 [], token_line 2 ''Hi'', done_line 3 None None] EndOfStream
     = event_gen_lines ''m'' 0 initial_state [token_line 2 ''Hi'', done_line 3 None None] EndOfStream
   \<and> token_texts (fst (event_gen ''m'' 0
        (Lines [token_line 1 [], token_line 2 ''Hi'', done_line 3 None None] EndOfStream))) = [''Hi'']
   \<and> [] \<notin> set (token_texts (fst (event_gen ''m'' 0
        (Lines [token_line 1 [], token_line 2 ''Hi'', done_line 3 None None] EndOfStream))))"
proof -
  have tl: "token_line 1 [] = (1, Json \<lparr>obj_done = False, response = Some [], prompt_eval_count = None,
                 eval_count = None, total_duration = None, prompt_eval_duration = None\<rparr>)"
    by (simp add: token_line_def)
  have ev: "token_texts (fst (event_gen ''m'' 0
        (Lines [token_line 1 [], token_line 2 ''Hi'', done_line 3 None None] EndOfStream))) = [''Hi'']"
    by (simp add: event_gen_def token_line_def done_line_def get_or_def)
  show ?thesis
    using empty_fragment_skipped [where obj = "\<lparr>obj_done = False, response = Some [], prompt_eval_count = None,
                 eval_count = None, total_duration = None, prompt_eval_duration = None\<rparr>"
        and mdl = "''m''" and s = 0 and st = initial_state and pre = "[]" and now = 1
        and post = "[token_line 2 ''Hi'', done_line 3 None None]" and e = EndOfStream
        and reply = "Lines [token_line 1 [], token_line 2 ''Hi'', done_line 3 None None] EndOfStream"]
      ev
    by (simp add: tl get_or_def)
qed

section \<open>Throughput\<close>









section \<open>The non-streaming handler\<close>



text \<open>
  C8. The non-streaming handler posts exactly one payload, with the built prompt and the
  temperature of the request; it never sets \<open>num_predict\<close>, so a request with
  \<open>max_tokens = 5\<close> reaches the backend with no generation limit, while
  \<open>chat_stream\<close> sends \<open>num_predict = 5\<close> for the same request.
\<close>

theorem chat_payload_drops_max_tokens:
  "fst (chat backend start_time end_time req) = [chat_payload req]
   \<and> payload_prompt (chat_payload req) = build_prompt (messages req)
   \<and> options_temperature (chat_payload req) = temperature req
   \<and> options_num_predict (chat_payload (sample_request\<lparr>max_tokens := Some 5\<rparr>)) = None
   \<and> options_num_predict (chat_stream_payload (sample_request\<lparr>max_tokens := Some 5\<rparr>)) = Some 5"
proof -
  have "fst (chat backend start_time end_time req) = [chat_payload req]"
    by (cases "backend (chat_payload req)") (simp_all add: chat_def Let_def)
  then show ?thesis
    by (simp add: chat_payload_def chat_stream_payload_def sample_request_def)
qed

theorem chat_payload_drops_max_tokens_witness:
  "fst (chat (\<lambda>p. Reply paris_reply) 0 2 (sample_request\<lparr>max_tokens := Some 5\<rparr>))
     = [\<lparr>payload_model = ''m'', payload_prompt = ''USER: Hi'', options_temperature = 1 / 5,
         options_num_predict = None, payload_stream = False\<rparr>]
   \<and> options_num_predict (chat_stream_payload (sample_request\<lparr>max_tokens := Some 5\<rparr>)) = Some 5"
proof -
  have p: "build_prompt [\<lparr>role = User, content = ''Hi''\<rparr>] = ''USER: Hi''"
    by code_simp
  show ?thesis
    using chat_payload_drops_max_tokens [where backend = "\<lambda>p. Reply paris_reply"
        and start_time = 0 and end_time = 2 and req = "sample_request\<lparr>max_tokens := Some 5\<rparr>"]
    by (simp add: chat_payload_def sample_request_def p)
qed

section \<open>Validation\<close>

text \<open>
  Both routes of \<open>app_ollama\<close> answer a body with no message, a temperature outside
  \<open>[0, 2]\<close> or a \<open>max_tokens\<close> below 1 with the validation error, and post nothing.
\<close>

lemma ollama_validation_rejects:
  "messages body = [] \<or> temperature body < 0 \<or> 2 < temperature body
     \<or> (\<exists>n. max_tokens body = Some n \<and> n < 1) \<Longrightarrow>
   post_v1_chat backend start_time end_time body = ([], Inl RequestValidationError)
   \<and> post_v1_chat_stream sbackend start_time body = ([], Inl RequestValidationError)"
  by (auto simp: post_v1_chat_def post_v1_chat_stream_def ChatRequest_validate_def
      split: option.splits)

text \<open>
  C3. \<open>app_ollama\<close> rejects a body with an empty message list, with
  \<open>max_tokens = 0\<close> or with temperature 3 before any backend call; \<open>app_onnx\<close>,
  whose schema declares no constraint, accepts each of them and calls
  \<open>model.generate\<close>: with the empty prompt, with the default limit in place of 0,
  and with temperature 3.
\<close>

theorem onnx_accepts_invalid_requests:
  "post_v1_chat backend start_time end_time (sample_request\<lparr>messages := []\<rparr>)
     = ([], Inl RequestValidationError)
   \<and> post_v1_chat_onnx_calls d (sample_request\<lparr>messages := []\<rparr>)
     = [\<lparr>call_prompt = [], do_sample = True, call_temperature = 1 / 5, max_new_tokens = d\<rparr>]
   \<and> post_v1_chat backend start_time end_time (sample_request\<lparr>max_tokens := Some 0\<rparr>)
     = ([], Inl RequestValidationError)
   \<and> map max_new_tokens (post_v1_chat_onnx_calls d (sample_request\<lparr>max_tokens := Some 0\<rparr>)) = [d]
   \<and> post_v1_chat backend start_time end_time (sample_request\<lparr>temperature := 3\<rparr>)
     = ([], Inl RequestValidationError)
   \<and> map call_temperature (post_v1_chat_onnx_calls d (sample_request\<lparr>temperature := 3\<rparr>)) = [3]"
proof -
  have p: "build_prompt [] = []"
    by code_simp
  show ?thesis
    by (simp add: post_v1_chat_def ChatRequest_validate_def post_v1_chat_onnx_calls_def
        ChatRequest_validate_onnx_def onnx_generate_call_def sample_request_def p)
qed

theorem onnx_accepts_invalid_requests_witness:
  "post_v1_chat (\<lambda>p. Reply paris_reply) 0 2 (sample_request\<lparr>messages := []\<rparr>)
     = ([], Inl RequestValidationError)
   \<and> post_v1_chat_onnx_calls 512 (sample_request\<lparr>messages := []\<rparr>)
     = [\<lparr>call_prompt = [], do_sample = True, call_temperature = 1 / 5, max_new_tokens = 512\<rparr>]"
  using onnx_accepts_invalid_requests [where backend = "\<lambda>p. Reply paris_reply"
      and start_time = 0 and end_time = 2 and d = 512]
  by simp

end
